theory Spec2Isabelle
  imports Main "HOL-Library.Sublist"
begin

section \<open>Python values\<close>

text \<open>
  The values that cross the gateway's boundary are JSON-decoded Python values: the result
  of \<^verbatim>\<open>replicate.run\<close>, the body read by \<^verbatim>\<open>request.get_json()\<close> and the
  dictionaries handed to \<^verbatim>\<open>jsonify\<close>. A dictionary is an association list in
  insertion order (its keys are strings, as JSON object keys are). The gateway never
  computes with a float, it only prints one, so a float is kept as the text that
  \<^verbatim>\<open>repr\<close> shows for it. Strings are lists of 8-bit characters.
\<close>

datatype pyval =
    PNone
  | PBool bool
  | PInt int
  | PFloat string
  | PStr string
  | PList "pyval list"
  | PDict "(string \<times> pyval) list"

text \<open>An instance of \<^verbatim>\<open>Exception\<close>: its class name and the text \<^verbatim>\<open>str(e)\<close> gives.\<close>

datatype pyexn = PyExn string string

fun str_exn :: "pyexn \<Rightarrow> string" where
  "str_exn (PyExn cls msg) = msg"

subsection \<open>\<^verbatim>\<open>str\<close> and \<^verbatim>\<open>repr\<close>\<close>

fun digits :: "nat \<Rightarrow> string" where
  "digits n = (if n < 10 then [''0123456789'' ! n]
               else digits (n div 10) @ [''0123456789'' ! (n mod 10)])"

declare digits.simps [simp del]

definition hex2 :: "nat \<Rightarrow> string" where
  "hex2 n = [''0123456789abcdef'' ! (n div 16 mod 16), ''0123456789abcdef'' ! (n mod 16)]"

text \<open>
  Among the code points below 256 the ones \<^verbatim>\<open>repr\<close> escapes are the control characters
  (below 32 and 127 to 159), the no-break space (160) and the soft hyphen (173).
\<close>

definition printable :: "char \<Rightarrow> bool" where
  "printable c =
     (let n = (of_char c :: nat) in \<not> (n < 32 \<or> (127 \<le> n \<and> n \<le> 160) \<or> n = 173))"

definition repr_char :: "char \<Rightarrow> char \<Rightarrow> string" where
  "repr_char q c =
     (if c = q \<or> c = CHR 0x5C then [CHR 0x5C, c]
      else if c = CHR 0x09 then [CHR 0x5C, CHR ''t'']
      else if c = CHR 0x0A then [CHR 0x5C, CHR ''n'']
      else if c = CHR 0x0D then [CHR 0x5C, CHR ''r'']
      else if printable c then [c]
      else [CHR 0x5C, CHR ''x''] @ hex2 (of_char c))"

text \<open>
  The quote is the single quote, unless the string holds a single quote and no double
  quote.
\<close>

definition repr_str :: "string \<Rightarrow> string" where
  "repr_str s =
     (let q = (if CHR 0x27 \<in> set s \<and> CHR 0x22 \<notin> set s then CHR 0x22 else CHR 0x27)
      in [q] @ concat (map (repr_char q) s) @ [q])"

fun join :: "string \<Rightarrow> string list \<Rightarrow> string" where
  "join sep [] = []"
| "join sep [x] = x"
| "join sep (x # y # ys) = x @ sep @ join sep (y # ys)"

fun py_repr :: "pyval \<Rightarrow> string" where
  "py_repr PNone = ''None''"
| "py_repr (PBool b) = (if b then ''True'' else ''False'')"
| "py_repr (PInt i) = (if i < 0 then ''-'' @ digits (nat (- i)) else digits (nat i))"
| "py_repr (PFloat r) = r"
| "py_repr (PStr s) = repr_str s"
| "py_repr (PList xs) = ''['' @ join '', '' (map py_repr xs) @ '']''"
| "py_repr (PDict kvs) =
     ''{'' @ join '', '' (map (\<lambda>(k, v). repr_str k @ '': '' @ py_repr v) kvs) @ ''}''"

fun py_str :: "pyval \<Rightarrow> string" where
  "py_str (PStr s) = s"
| "py_str v = py_repr v"

subsection \<open>The operations the handlers apply to a value\<close>

fun type_name :: "pyval \<Rightarrow> string" where
  "type_name PNone = ''NoneType''"
| "type_name (PBool b) = ''bool''"
| "type_name (PInt i) = ''int''"
| "type_name (PFloat r) = ''float''"
| "type_name (PStr s) = ''str''"
| "type_name (PList xs) = ''list''"
| "type_name (PDict kvs) = ''dict''"

text \<open>Truth value testing, as \<^verbatim>\<open>not data\<close> does it.\<close>

fun truthy :: "pyval \<Rightarrow> bool" where
  "truthy PNone = False"
| "truthy (PBool b) = b"
| "truthy (PInt i) = (i \<noteq> 0)"
| "truthy (PFloat r) = (r \<noteq> ''0.0'' \<and> r \<noteq> ''-0.0'')"
| "truthy (PStr s) = (s \<noteq> [])"
| "truthy (PList xs) = (xs \<noteq> [])"
| "truthy (PDict kvs) = (kvs \<noteq> [])"

fun substring :: "string \<Rightarrow> string \<Rightarrow> bool" where
  "substring p [] = (p = [])"
| "substring p (c # cs) = (prefix p (c # cs) \<or> substring p cs)"

text \<open>
  \<^verbatim>\<open>key in v\<close> for a string key: a key of a dictionary, an element of a list, a
  substring of a string, and a \<^verbatim>\<open>TypeError\<close> on anything else.
\<close>

fun py_contains :: "string \<Rightarrow> pyval \<Rightarrow> pyexn + bool" where
  "py_contains key (PDict kvs) = Inr (key \<in> fst ` set kvs)"
| "py_contains key (PList xs) = Inr (PStr key \<in> set xs)"
| "py_contains key (PStr s) = Inr (substring key s)"
| "py_contains key v =
     Inl (PyExn ''TypeError'' (''argument of type '' @ repr_str (type_name v) @ '' is not iterable''))"

text \<open>\<^verbatim>\<open>v[key]\<close> for a string key.\<close>

fun py_getitem :: "pyval \<Rightarrow> string \<Rightarrow> pyexn + pyval" where
  "py_getitem (PDict kvs) key =
     (case map_of kvs key of
        None \<Rightarrow> Inl (PyExn ''KeyError'' (repr_str key))
      | Some x \<Rightarrow> Inr x)"
| "py_getitem (PList xs) key =
     Inl (PyExn ''TypeError'' ''list indices must be integers or slices, not str'')"
| "py_getitem (PStr s) key =
     Inl (PyExn ''TypeError'' (''string indices must be integers, not '' @ repr_str ''str''))"
| "py_getitem v key =
     Inl (PyExn ''TypeError'' (repr_str (type_name v) @ '' object is not subscriptable''))"

text \<open>\<^verbatim>\<open>d.get(key, default)\<close> on a dictionary's items.\<close>

definition dict_get :: "(string \<times> pyval) list \<Rightarrow> string \<Rightarrow> pyval \<Rightarrow> pyval" where
  "dict_get kvs key dflt = (case map_of kvs key of None \<Rightarrow> dflt | Some x \<Rightarrow> x)"

definition no_attribute :: "pyval \<Rightarrow> string \<Rightarrow> pyexn" where
  "no_attribute v attr =
     PyExn ''AttributeError''
       (repr_str (type_name v) @ '' object has no attribute '' @ repr_str attr)"

text \<open>\<^verbatim>\<open>v.get(key, default)\<close>: only a dictionary has the method.\<close>

fun py_get :: "pyval \<Rightarrow> string \<Rightarrow> pyval \<Rightarrow> pyexn + pyval" where
  "py_get (PDict kvs) key dflt = Inr (dict_get kvs key dflt)"
| "py_get v key dflt = Inl (no_attribute v ''get'')"

text \<open>
  The characters \<^verbatim>\<open>str.strip()\<close> removes: tab to carriage return, the four
  separators 28 to 31, the space, and among the code points from 128 to 255 the next-line
  control (133) and the no-break space (160).
\<close>

definition isspace :: "char \<Rightarrow> bool" where
  "isspace c =
     (let n = (of_char c :: nat)
      in (9 \<le> n \<and> n \<le> 13) \<or> (28 \<le> n \<and> n \<le> 32) \<or> n = 133 \<or> n = 160)"

definition strip :: "string \<Rightarrow> string" where
  "strip s = rev (dropWhile isspace (rev (dropWhile isspace s)))"

text \<open>\<^verbatim>\<open>v.strip()\<close>: only a string has the method.\<close>

fun py_strip :: "pyval \<Rightarrow> pyexn + string" where
  "py_strip (PStr s) = Inr (strip s)"
| "py_strip v = Inl (no_attribute v ''strip'')"

section \<open>The state a request runs in\<close>

text \<open>
  The calls that leave the process: \<^verbatim>\<open>replicate.run(ref, input=...)\<close> with the bytes
  of the opened audio file and the other entries of the input dictionary,
  \<^verbatim>\<open>edge_tts.Communicate(text, voice)\<close> and \<^verbatim>\<open>communicate.save(path)\<close>.
\<close>

datatype backend_call =
    ReplicateRun string string "(string \<times> pyval) list"
  | EdgeCommunicate pyval string
  | EdgeSave string

type_synonym voice_catalog = "(string \<times> (string \<times> string) list) list"

text \<open>
  The temporary directory (path to bytes), the module global \<^verbatim>\<open>language_dict\<close> and
  the backend calls made so far, oldest first.
\<close>

record world =
  storage :: "string \<rightharpoonup> string"
  catalog :: voice_catalog
  backend_calls :: "backend_call list"

text \<open>
  What the surroundings decide during one request: whether
  \<^verbatim>\<open>tempfile.NamedTemporaryFile\<close> fails or which path (before the suffix) it picks,
  whether saving the upload fails, what \<^verbatim>\<open>replicate.run\<close> returns or raises, and
  whether the speech engine fails or which audio bytes it writes.
\<close>

record env =
  tmp_name :: "pyexn + string"
  save_fault :: "pyexn option"
  replicate_result :: "pyexn + pyval"
  tts_result :: "pyexn + string"

text \<open>An uploaded file (\<^verbatim>\<open>FileStorage\<close>) and what a handler reads of the request.\<close>

record upload =
  filename :: string
  stream :: string

record request =
  req_files :: "string \<rightharpoonup> upload"
  req_json :: "pyexn + pyval"

datatype body = JsonBody pyval | FileBody string string

record response =
  status :: nat
  body :: body

text \<open>A statement either raises or yields a value, and changes the world.\<close>

type_synonym 'a io = "world \<Rightarrow> (pyexn + 'a) \<times> world"

definition io_return :: "'a \<Rightarrow> 'a io" where
  "io_return x = (\<lambda>w. (Inr x, w))"

definition io_raise :: "pyexn \<Rightarrow> 'a io" where
  "io_raise e = (\<lambda>w. (Inl e, w))"

definition io_lift :: "pyexn + 'a \<Rightarrow> 'a io" where
  "io_lift r = (\<lambda>w. (r, w))"

definition io_bind :: "'a io \<Rightarrow> ('a \<Rightarrow> 'b io) \<Rightarrow> 'b io" where
  "io_bind m f = (\<lambda>w. case m w of (Inl e, w') \<Rightarrow> (Inl e, w') | (Inr x, w') \<Rightarrow> f x w')"

text \<open>\<^verbatim>\<open>try: m except Exception as e: h e\<close>\<close>

definition try_except :: "'a io \<Rightarrow> (pyexn \<Rightarrow> 'a io) \<Rightarrow> 'a io" where
  "try_except m h = (\<lambda>w. case m w of (Inl e, w') \<Rightarrow> h e w' | (Inr x, w') \<Rightarrow> (Inr x, w'))"

subsection \<open>Library calls\<close>

definition file_not_found :: "string \<Rightarrow> pyexn" where
  "file_not_found path =
     PyExn ''FileNotFoundError'' (''[Errno 2] No such file or directory: '' @ repr_str path)"

text \<open>
  \<^verbatim>\<open>tempfile.NamedTemporaryFile(delete=False, suffix=...)\<close> creates an empty file and
  yields its path; with \<^verbatim>\<open>delete=False\<close> closing it leaves the file in place.
\<close>

definition named_temporary_file :: "pyexn + string \<Rightarrow> string \<Rightarrow> string io" where
  "named_temporary_file r sfx =
     (case r of
        Inl e \<Rightarrow> io_raise e
      | Inr stem \<Rightarrow>
          (\<lambda>w. (Inr (stem @ sfx), w\<lparr>storage := (storage w)(stem @ sfx \<mapsto> [])\<rparr>)))"

text \<open>\<^verbatim>\<open>audio_file.save(path)\<close>\<close>

definition file_save :: "pyexn option \<Rightarrow> upload \<Rightarrow> string \<Rightarrow> unit io" where
  "file_save fault f path =
     (case fault of
        Some e \<Rightarrow> io_raise e
      | None \<Rightarrow> (\<lambda>w. (Inr (), w\<lparr>storage := (storage w)(path \<mapsto> stream f)\<rparr>)))"

text \<open>\<^verbatim>\<open>open(path, "rb")\<close>, read by the backend client.\<close>

definition open_rb :: "string \<Rightarrow> string io" where
  "open_rb path =
     (\<lambda>w. case storage w path of
             None \<Rightarrow> (Inl (file_not_found path), w)
           | Some bytes \<Rightarrow> (Inr bytes, w))"

definition os_unlink :: "string \<Rightarrow> unit io" where
  "os_unlink path =
     (\<lambda>w. case storage w path of
             None \<Rightarrow> (Inl (file_not_found path), w)
           | Some bytes \<Rightarrow> (Inr (), w\<lparr>storage := (storage w)(path := None)\<rparr>))"

definition os_path_exists :: "string \<Rightarrow> bool io" where
  "os_path_exists path = (\<lambda>w. (Inr (storage w path \<noteq> None), w))"

definition replicate_run ::
  "pyexn + pyval \<Rightarrow> string \<Rightarrow> string \<Rightarrow> (string \<times> pyval) list \<Rightarrow> pyval io" where
  "replicate_run r ref audio params =
     (\<lambda>w. (r, w\<lparr>backend_calls := backend_calls w @ [ReplicateRun ref audio params]\<rparr>))"

definition edge_tts_Communicate :: "pyval \<Rightarrow> string \<Rightarrow> unit io" where
  "edge_tts_Communicate text voice =
     (\<lambda>w. (Inr (), w\<lparr>backend_calls := backend_calls w @ [EdgeCommunicate text voice]\<rparr>))"

definition communicate_save :: "pyexn + string \<Rightarrow> string \<Rightarrow> unit io" where
  "communicate_save r path =
     (\<lambda>w. case r of
             Inl e \<Rightarrow> (Inl e, w\<lparr>backend_calls := backend_calls w @ [EdgeSave path]\<rparr>)
           | Inr bytes \<Rightarrow>
               (Inr (), w\<lparr>storage := (storage w)(path \<mapsto> bytes),
                          backend_calls := backend_calls w @ [EdgeSave path]\<rparr>))"

definition jsonify :: "(string \<times> pyval) list \<Rightarrow> body" where
  "jsonify d = JsonBody (PDict d)"

definition respond :: "body \<Rightarrow> nat \<Rightarrow> response" where
  "respond b code = \<lparr>status = code, body = b\<rparr>"

text \<open>\<^verbatim>\<open>send_file(path, mimetype=...)\<close> answers 200 with the file's bytes.\<close>

definition send_file :: "string \<Rightarrow> string \<Rightarrow> response io" where
  "send_file path mimetype =
     (\<lambda>w. case storage w path of
             None \<Rightarrow> (Inl (file_not_found path), w)
           | Some bytes \<Rightarrow> (Inr (respond (FileBody bytes mimetype) 200), w))"

section \<open>server.py\<close>

definition language_dict :: voice_catalog where
  "language_dict =
     [(''English'', [(''Jenny'', ''en-US-JennyNeural''), (''Guy'', ''en-US-GuyNeural'')]),
      (''Hindi'', [(''Madhur'', ''hi-IN-MadhurNeural''), (''Swara'', ''hi-IN-SwaraNeural'')]),
      (''Tamil'', [(''Pallavi'', ''ta-IN-PallaviNeural''), (''Valluvar'', ''ta-IN-ValluvarNeural'')]),
      (''Telugu'', [(''Mohan'', ''te-IN-MohanNeural''), (''Shruti'', ''te-IN-ShrutiNeural'')]),
      (''Kannada'', [(''Gagan'', ''kn-IN-GaganNeural''), (''Sapna'', ''kn-IN-SapnaNeural'')]),
      (''Malayalam'', [(''Midhun'', ''ml-IN-MidhunNeural''), (''Sobhana'', ''ml-IN-SobhanaNeural'')]),
      (''Marathi'', [(''Aarohi'', ''mr-IN-AarohiNeural''), (''Manohar'', ''mr-IN-ManoharNeural'')]),
      (''Gujarati'', [(''Dhwani'', ''gu-IN-DhwaniNeural''), (''Niranjan'', ''gu-IN-NiranjanNeural'')]),
      (''Bengali'', [(''Nabanita'', ''bn-BD-NabanitaNeural''), (''Bashkar'', ''bn-IN-BashkarNeural'')]),
      (''Urdu'', [(''Gul'', ''ur-IN-GulNeural''), (''Salman'', ''ur-IN-SalmanNeural'')])]"

text \<open>The process after the module has been loaded: nothing stored, no call made.\<close>

definition startup :: world where
  "startup = \<lparr>storage = Map.empty, catalog = language_dict, backend_calls = []\<rparr>"

definition read_catalog :: "voice_catalog io" where
  "read_catalog = (\<lambda>w. (Inr (catalog w), w))"

text \<open>
  \<^verbatim>\<open>language in language_dict\<close>: a list or a dictionary cannot be hashed, any other
  value is looked up, and only a string equals a key.
\<close>

fun catalog_contains :: "voice_catalog \<Rightarrow> pyval \<Rightarrow> pyexn + bool" where
  "catalog_contains cat (PStr l) = Inr (l \<in> fst ` set cat)"
| "catalog_contains cat (PList xs) = Inl (PyExn ''TypeError'' (''unhashable type: '' @ repr_str ''list''))"
| "catalog_contains cat (PDict kvs) = Inl (PyExn ''TypeError'' (''unhashable type: '' @ repr_str ''dict''))"
| "catalog_contains cat v = Inr False"

text \<open>\<^verbatim>\<open>language_dict[language]\<close>\<close>

fun catalog_getitem :: "voice_catalog \<Rightarrow> pyval \<Rightarrow> pyexn + (string \<times> string) list" where
  "catalog_getitem cat (PStr l) =
     (case map_of cat l of
        None \<Rightarrow> Inl (PyExn ''KeyError'' (repr_str l))
      | Some speakers \<Rightarrow> Inr speakers)"
| "catalog_getitem cat (PList xs) = Inl (PyExn ''TypeError'' (''unhashable type: '' @ repr_str ''list''))"
| "catalog_getitem cat (PDict kvs) = Inl (PyExn ''TypeError'' (''unhashable type: '' @ repr_str ''dict''))"
| "catalog_getitem cat v = Inl (PyExn ''KeyError'' (py_repr v))"

text \<open>
  Lines 70 to 76 of \<^verbatim>\<open>generate_tts_audio\<close>: the language falls back to English, the
  speaker is the first key of the language's dictionary, the voice is that speaker's.
\<close>

definition resolve_voice :: "voice_catalog \<Rightarrow> pyval \<Rightarrow> pyexn + string" where
  "resolve_voice cat language =
     (case catalog_contains cat language of
        Inl e \<Rightarrow> Inl e
      | Inr found \<Rightarrow>
          (let language = (if \<not> found then PStr ''English'' else language) in
           case catalog_getitem cat language of
             Inl e \<Rightarrow> Inl e
           | Inr speakers \<Rightarrow>
               (case map fst speakers of
                  [] \<Rightarrow> Inl (PyExn ''IndexError'' ''list index out of range'')
                | speaker_name # rest \<Rightarrow>
                    (case map_of speakers speaker_name of
                       None \<Rightarrow> Inl (PyExn ''KeyError'' (repr_str speaker_name))
                     | Some voice \<Rightarrow> Inr voice))))"

definition generate_tts_audio :: "env \<Rightarrow> pyval \<Rightarrow> pyval \<Rightarrow> string io" where
  "generate_tts_audio ev text language =
     io_bind read_catalog (\<lambda>cat.
     io_bind (io_lift (resolve_voice cat language)) (\<lambda>voice.
     io_bind (edge_tts_Communicate text voice) (\<lambda>communicate.
     io_bind (named_temporary_file (tmp_name ev) ''.mp3'') (\<lambda>temp_audio.
     io_bind (communicate_save (tts_result ev) temp_audio) (\<lambda>saved.
     io_return temp_audio)))))"

definition health_check :: "response io" where
  "health_check =
     io_return (respond (jsonify [(''status'', PStr ''Server is running''),
                                  (''message'', PStr ''Audio transcription service ready'')]) 200)"

definition whisper_version :: string where
  "whisper_version =
     ''openai/whisper:4d50797290df275329f202e48c76360b3f22b08d28c196cbc54600319435f8d2''"

text \<open>The entries of the input dictionary after \<^verbatim>\<open>"audio"\<close>.\<close>

definition decoding_input :: "(string \<times> pyval) list" where
  "decoding_input =
     [(''model'', PStr ''large-v3''),
      (''language'', PStr ''auto''),
      (''translate'', PBool False),
      (''temperature'', PInt 0),
      (''suppress_tokens'', PStr ''-1''),
      (''logprob_threshold'', PFloat ''-1.0''),
      (''no_speech_threshold'', PFloat ''0.6''),
      (''condition_on_previous_text'', PBool True)]"

text \<open>Lines 140 to 151: the two fields of the success body.\<close>

definition transcription_field :: "pyval \<Rightarrow> pyval" where
  "transcription_field output =
     (case output of
        PDict d \<Rightarrow> dict_get d ''transcription'' (PStr (py_str output))
      | PStr s \<Rightarrow> output
      | _ \<Rightarrow> PStr (py_str output))"

definition language_field :: "pyval \<Rightarrow> pyval" where
  "language_field output =
     (case output of PDict d \<Rightarrow> dict_get d ''language'' PNone | _ \<Rightarrow> PNone)"

definition transcribe :: "env \<Rightarrow> request \<Rightarrow> response io" where
  "transcribe ev req =
     try_except
       (case req_files req ''file'' of
          None \<Rightarrow> io_return (respond (jsonify [(''error'', PStr ''No audio file provided'')]) 400)
        | Some audio_file \<Rightarrow>
            if filename audio_file = []
            then io_return (respond (jsonify [(''error'', PStr ''No file selected'')]) 400)
            else
              io_bind (named_temporary_file (tmp_name ev) ''.webm'') (\<lambda>temp.
              io_bind (file_save (save_fault ev) audio_file temp) (\<lambda>saved.
              try_except
                (io_bind (open_rb temp) (\<lambda>audio.
                 io_bind (replicate_run (replicate_result ev) whisper_version audio
                            decoding_input) (\<lambda>output.
                 io_bind (os_unlink temp) (\<lambda>unlinked.
                 io_return (respond (jsonify [(''transcription'', transcription_field output),
                                              (''language'', language_field output)]) 200)))))
                (\<lambda>replicate_error.
                 io_bind (os_path_exists temp) (\<lambda>exists.
                 io_bind (if exists then os_unlink temp else io_return ()) (\<lambda>unlinked.
                 io_return (respond (jsonify
                   [(''error'', PStr (''Transcription failed: '' @ str_exn replicate_error))])
                   500)))))))
       (\<lambda>e. io_return (respond (jsonify [(''error'', PStr (''Server error: '' @ str_exn e))]) 500))"

text \<open>
  \<^verbatim>\<open>not data or 'text' not in data\<close>: the membership test runs only on a truthy
  value.
\<close>

definition text_missing :: "pyval \<Rightarrow> pyexn + bool" where
  "text_missing data =
     (if \<not> truthy data then Inr True
      else case py_contains ''text'' data of Inl e \<Rightarrow> Inl e | Inr found \<Rightarrow> Inr (\<not> found))"

text \<open>
  The event loop made for the call and closed in the \<^verbatim>\<open>finally\<close> block holds no
  state of the model.
\<close>

definition text_to_speech :: "env \<Rightarrow> request \<Rightarrow> response io" where
  "text_to_speech ev req =
     try_except
       (io_bind (io_lift (req_json req)) (\<lambda>data.
        io_bind (io_lift (text_missing data)) (\<lambda>missing.
        if missing
        then io_return (respond (jsonify [(''error'', PStr ''No text provided'')]) 400)
        else
          io_bind (io_lift (py_getitem data ''text'')) (\<lambda>text.
          io_bind (io_lift (py_get data ''language'' (PStr ''English''))) (\<lambda>language.
          io_bind (io_lift (py_strip text)) (\<lambda>stripped.
          if stripped = []
          then io_return (respond (jsonify [(''error'', PStr ''Empty text provided'')]) 400)
          else
            io_bind (generate_tts_audio ev text language) (\<lambda>audio_file_path.
            send_file audio_file_path ''audio/mpeg'')))))))
       (\<lambda>e. io_return (respond (jsonify
          [(''error'', PStr (''TTS generation failed: '' @ str_exn e))]) 500))"

section \<open>The catalog and the process over many requests\<close>

text \<open>Every voice identifier of a catalog.\<close>

definition catalog_voices :: "voice_catalog \<Rightarrow> string list" where
  "catalog_voices cat = concat (map (\<lambda>(l, speakers). map snd speakers) cat)"

text \<open>
  What the lookup of \<^verbatim>\<open>generate_tts_audio\<close> relies on: English is a key, and no
  language has an empty speaker dictionary.
\<close>

definition catalog_ok :: "voice_catalog \<Rightarrow> bool" where
  "catalog_ok cat =
     (''English'' \<in> fst ` set cat \<and> (\<forall>(l, speakers) \<in> set cat. speakers \<noteq> []))"

fun hashable :: "pyval \<Rightarrow> bool" where
  "hashable (PList xs) = False"
| "hashable (PDict kvs) = False"
| "hashable v = True"

text \<open>The three routes, and the process serving one request after the other.\<close>

datatype call = Health | Transcribe env request | Tts env request

fun serve :: "call \<Rightarrow> response io" where
  "serve Health = health_check"
| "serve (Transcribe ev req) = transcribe ev req"
| "serve (Tts ev req) = text_to_speech ev req"

fun serve_all :: "call list \<Rightarrow> world \<Rightarrow> world" where
  "serve_all [] w = w"
| "serve_all (c # cs) w = serve_all cs (snd (serve c w))"

section \<open>Example requests\<close>

definition example_env :: env where
  "example_env =
     \<lparr>tmp_name = Inr ''/tmp/tmpk3x9'',
      save_fault = None,
      replicate_result =
        Inr (PDict [(''transcription'', PStr ''hello world''), (''language'', PStr ''en'')]),
      tts_result = Inr ''ID3''\<rparr>"

definition failing_env :: env where
  "failing_env =
     example_env\<lparr>replicate_result := Inl (PyExn ''ReplicateError'' ''quota exceeded'')\<rparr>"

definition clip :: upload where
  "clip = \<lparr>filename = ''clip.webm'', stream = ''RIFF''\<rparr>"

definition not_json :: "pyexn + pyval" where
  "not_json = Inl (PyExn ''UnsupportedMediaType'' ''415 Unsupported Media Type'')"

definition audio_request :: request where
  "audio_request = \<lparr>req_files = [''file'' \<mapsto> clip], req_json = not_json\<rparr>"

definition empty_upload_request :: request where
  "empty_upload_request =
     \<lparr>req_files = [''file'' \<mapsto> \<lparr>filename = [], stream = []\<rparr>], req_json = not_json\<rparr>"

definition json_request :: "pyval \<Rightarrow> request" where
  "json_request data = \<lparr>req_files = Map.empty, req_json = Inr data\<rparr>"

definition klingon_body :: "(string \<times> pyval) list" where
  "klingon_body =
     [(''text'', PStr ''hello''), (''language'', PStr ''Klingon''), (''speaker'', PStr ''Worf'')]"

section \<open>Running the handlers\<close>

lemmas io_defs = io_return_def io_raise_def io_lift_def io_bind_def try_except_def

lemmas lib_defs = named_temporary_file_def file_save_def open_rb_def os_unlink_def
  os_path_exists_def replicate_run_def edge_tts_Communicate_def communicate_save_def
  send_file_def read_catalog_def

lemmas example_defs = example_env_def failing_env_def clip_def not_json_def
  audio_request_def empty_upload_request_def json_request_def klingon_body_def startup_def

lemmas str_defs = repr_str_def repr_char_def printable_def hex2_def

text \<open>
  A request with a named file whose upload was saved: the backend is called once with the
  bytes of the upload, and the temporary file is gone when the handler answers, with the
  backend's result or with its fault.
\<close>

lemma transcribe_success:
  assumes "req_files req ''file'' = Some f" and "filename f \<noteq> []"
    and "tmp_name ev = Inr stem" and "save_fault ev = None"
    and "replicate_result ev = Inr output"
  shows "transcribe ev req w =
    (Inr (respond (jsonify [(''transcription'', transcription_field output),
                            (''language'', language_field output)]) 200),
     w\<lparr>storage := (storage w)(stem @ ''.webm'' := None),
       backend_calls := backend_calls w @
         [ReplicateRun whisper_version (stream f) decoding_input]\<rparr>)"
  using assms by (simp add: transcribe_def io_defs lib_defs)

lemma transcribe_backend_fault:
  assumes "req_files req ''file'' = Some f" and "filename f \<noteq> []"
    and "tmp_name ev = Inr stem" and "save_fault ev = None"
    and "replicate_result ev = Inl e"
  shows "transcribe ev req w =
    (Inr (respond (jsonify [(''error'', PStr (''Transcription failed: '' @ str_exn e))]) 500),
     w\<lparr>storage := (storage w)(stem @ ''.webm'' := None),
       backend_calls := backend_calls w @
         [ReplicateRun whisper_version (stream f) decoding_input]\<rparr>)"
  using assms by (simp add: transcribe_def io_defs lib_defs)

lemma transcribe_rejected:
  assumes "req_files req ''file'' = None \<or> (\<exists>f. req_files req ''file'' = Some f \<and> filename f = [])"
  shows "snd (transcribe ev req w) = w \<and> (\<exists>r. fst (transcribe ev req w) = Inr r \<and> status r = 400)"
  using assms by (auto simp add: transcribe_def io_defs respond_def)

text \<open>
  When saving the upload raises, the outer handler answers and the empty temporary file
  stays behind.
\<close>

lemma transcribe_save_fault:
  assumes "req_files req ''file'' = Some f" and "filename f \<noteq> []"
    and "tmp_name ev = Inr stem" and "save_fault ev = Some e"
  shows "transcribe ev req w =
    (Inr (respond (jsonify [(''error'', PStr (''Server error: '' @ str_exn e))]) 500),
     w\<lparr>storage := (storage w)(stem @ ''.webm'' \<mapsto> [])\<rparr>)"
  using assms by (simp add: transcribe_def io_defs lib_defs)

lemma transcribe_returns:
  "\<exists>r w'. transcribe ev req w = (Inr r, w') \<and> catalog w' = catalog w \<and>
     (status r = 200 \<or>
      (status r = 400 \<or> status r = 500) \<and>
      (\<exists>msg. body r = JsonBody (PDict [(''error'', PStr msg)])))"
  by (auto simp add: transcribe_def io_defs lib_defs respond_def jsonify_def
      split: option.splits sum.splits)

lemma transcribe_calls:
  "backend_calls (snd (transcribe ev req w)) = backend_calls w \<or>
   (\<exists>audio. backend_calls (snd (transcribe ev req w)) =
      backend_calls w @ [ReplicateRun whisper_version audio decoding_input])"
  by (auto simp add: transcribe_def io_defs lib_defs split: option.splits sum.splits)

subsection \<open>Voice resolution\<close>

lemma language_dict_ok: "catalog_ok language_dict"
  by (simp add: catalog_ok_def language_dict_def)

lemma first_speaker_voice:
  assumes "map_of cat l = Some speakers" and "\<forall>(l, speakers) \<in> set cat. speakers \<noteq> []"
  shows "\<exists>name v rest. speakers = (name, v) # rest \<and> v \<in> set (catalog_voices cat)"
proof -
  from assms(1) have mem: "(l, speakers) \<in> set cat" by (rule map_of_SomeD)
  with assms(2) have "speakers \<noteq> []" by auto
  then obtain name v rest where sp: "speakers = (name, v) # rest"
    by (cases speakers) auto
  from mem sp have "v \<in> set (catalog_voices cat)"
    by (force simp add: catalog_voices_def)
  with sp show ?thesis by blast
qed

lemma first_speaker_lookup:
  assumes "map_of cat l = Some speakers" and "\<forall>(l, speakers) \<in> set cat. speakers \<noteq> []"
  shows "\<exists>v. catalog_getitem cat (PStr l) = Inr speakers \<and>
     (case map fst speakers of
        [] \<Rightarrow> Inl (PyExn ''IndexError'' ''list index out of range'')
      | speaker_name # rest \<Rightarrow>
          (case map_of speakers speaker_name of
             None \<Rightarrow> Inl (PyExn ''KeyError'' (repr_str speaker_name))
           | Some voice \<Rightarrow> Inr voice)) = Inr v \<and> v \<in> set (catalog_voices cat)"
proof -
  from first_speaker_voice [OF assms] obtain name v rest
    where "speakers = (name, v) # rest" and "v \<in> set (catalog_voices cat)" by blast
  with assms(1) show ?thesis by simp
qed

text \<open>On a catalog that has English and no empty language, every hashable key resolves.\<close>

lemma resolve_voice_total:
  assumes ok: "catalog_ok cat" and h: "hashable language"
  shows "\<exists>v. resolve_voice cat language = Inr v \<and> v \<in> set (catalog_voices cat)"
proof -
  from ok have inv: "\<forall>(l, speakers) \<in> set cat. speakers \<noteq> []"
    and eng: "''English'' \<in> fst ` set cat" by (simp_all add: catalog_ok_def)
  from eng obtain es where e: "map_of cat ''English'' = Some es"
    by (metis domD dom_map_of_conv_image_fst)
  show ?thesis
  proof (cases "\<exists>l. language = PStr l \<and> l \<in> fst ` set cat")
    case True
    then obtain l where l: "language = PStr l" "l \<in> fst ` set cat" by blast
    then obtain sp where s: "map_of cat l = Some sp"
      by (metis domD dom_map_of_conv_image_fst)
    from first_speaker_lookup [OF s inv] l show ?thesis
      by (auto simp add: resolve_voice_def)
  next
    case False
    with h have "catalog_contains cat language = Inr False"
      by (cases language) auto
    with first_speaker_lookup [OF e inv] show ?thesis
      by (auto simp add: resolve_voice_def)
  qed
qed

subsection \<open>The synthesis route\<close>

lemma all_dropWhile: "(\<forall>x \<in> set (dropWhile P t). P x) = (\<forall>c \<in> set t. P c)"
  by (induction t) auto

lemma strip_blank: "(strip t = []) = (\<forall>c \<in> set t. isspace c)"
  by (simp add: strip_def dropWhile_eq_Nil_conv all_dropWhile)

lemma text_present:
  assumes "map_of d ''text'' = Some x"
  shows "text_missing (PDict d) = Inr False"
proof -
  from assms have "(''text'', x) \<in> set d" by (rule map_of_SomeD)
  then have "''text'' \<in> fst ` set d" and "d \<noteq> []" by force+
  then show ?thesis by (simp add: text_missing_def)
qed

lemma generate_tts_audio_run:
  assumes "resolve_voice (catalog w) language = Inr v" and "tmp_name ev = Inr stem"
  shows "generate_tts_audio ev x language w =
    (case tts_result ev of
       Inl e \<Rightarrow>
         (Inl e, w\<lparr>storage := (storage w)(stem @ ''.mp3'' \<mapsto> []),
                   backend_calls := backend_calls w @
                     [EdgeCommunicate x v, EdgeSave (stem @ ''.mp3'')]\<rparr>)
     | Inr bytes \<Rightarrow>
         (Inr (stem @ ''.mp3''), w\<lparr>storage := (storage w)(stem @ ''.mp3'' \<mapsto> bytes),
                   backend_calls := backend_calls w @
                     [EdgeCommunicate x v, EdgeSave (stem @ ''.mp3'')]\<rparr>))"
  using assms by (simp add: generate_tts_audio_def io_defs lib_defs split: sum.splits)

lemma generate_tts_audio_catalog:
  "catalog (snd (generate_tts_audio ev x language w)) = catalog w"
  by (auto simp add: generate_tts_audio_def io_defs lib_defs split: sum.splits)

lemma tts_dispatch:
  assumes "req_json req = Inr (PDict d)" and "map_of d ''text'' = Some (PStr t)"
    and "strip t \<noteq> []"
  shows "text_to_speech ev req w =
    try_except
      (io_bind (generate_tts_audio ev (PStr t) (dict_get d ''language'' (PStr ''English'')))
         (\<lambda>audio_file_path. send_file audio_file_path ''audio/mpeg''))
      (\<lambda>e. io_return (respond (jsonify
          [(''error'', PStr (''TTS generation failed: '' @ str_exn e))]) 500)) w"
  using assms text_present [OF assms(2)]
  by (simp add: text_to_speech_def io_defs)

lemma tts_run:
  assumes "req_json req = Inr (PDict d)" and "map_of d ''text'' = Some (PStr t)"
    and "strip t \<noteq> []"
    and "resolve_voice (catalog w) (dict_get d ''language'' (PStr ''English'')) = Inr v"
    and "tmp_name ev = Inr stem"
  shows "text_to_speech ev req w =
    (case tts_result ev of
       Inl e \<Rightarrow>
         (Inr (respond (jsonify
            [(''error'', PStr (''TTS generation failed: '' @ str_exn e))]) 500),
          w\<lparr>storage := (storage w)(stem @ ''.mp3'' \<mapsto> []),
            backend_calls := backend_calls w @
              [EdgeCommunicate (PStr t) v, EdgeSave (stem @ ''.mp3'')]\<rparr>)
     | Inr bytes \<Rightarrow>
         (Inr (respond (FileBody bytes ''audio/mpeg'') 200),
          w\<lparr>storage := (storage w)(stem @ ''.mp3'' \<mapsto> bytes),
            backend_calls := backend_calls w @
              [EdgeCommunicate (PStr t) v, EdgeSave (stem @ ''.mp3'')]\<rparr>))"
  unfolding tts_dispatch [OF assms(1,2,3)]
  by (simp add: generate_tts_audio_run [OF assms(4,5)] try_except_def io_bind_def
      io_return_def send_file_def split: sum.splits)

lemma tts_voice_passed:
  assumes "req_json req = Inr (PDict d)" and "map_of d ''text'' = Some (PStr t)"
    and "strip t \<noteq> []"
    and "resolve_voice (catalog w) (dict_get d ''language'' (PStr ''English'')) = Inr v"
  shows "\<exists>rest. backend_calls (snd (text_to_speech ev req w)) =
           backend_calls w @ EdgeCommunicate (PStr t) v # rest"
  unfolding tts_dispatch [OF assms(1,2,3)]
  using assms(4)
  by (auto simp add: generate_tts_audio_def io_defs lib_defs split: sum.splits)

text \<open>
  A body that is a number other than zero is not a container: the membership test raises
  and the answer is a 500.
\<close>

lemma tts_number_body:
  assumes "req_json req = Inr (PInt n)" and "n \<noteq> 0"
  shows "text_to_speech ev req w =
    (Inr (respond (jsonify [(''error'', PStr (''TTS generation failed: '' @
        ''argument of type '' @ repr_str ''int'' @ '' is not iterable''))]) 500), w)"
  using assms by (simp add: text_to_speech_def text_missing_def io_defs)

lemma tts_returns:
  "\<exists>r w'. text_to_speech ev req w = (Inr r, w') \<and> catalog w' = catalog w \<and>
     (status r = 200 \<or>
      (status r = 400 \<or> status r = 500) \<and>
      (\<exists>msg. body r = JsonBody (PDict [(''error'', PStr msg)])))"
  by (auto simp add: text_to_speech_def generate_tts_audio_def io_defs lib_defs
      respond_def jsonify_def split: option.splits sum.splits)

subsection \<open>Which requests get which status\<close>

text \<open>
  The transcription route answers 200 exactly when a named file was uploaded, the temporary
  file was created, the upload was saved and the backend returned; it answers 400 exactly
  when the file or its name is missing; every answer that is not a 200 is a 400 or a 500
  with an error body.
\<close>

lemma transcribe_classified:
  "\<exists>r w'. transcribe ev req w = (Inr r, w') \<and>
     ((status r = 200) =
        (\<exists>f stem out. req_files req ''file'' = Some f \<and> filename f \<noteq> [] \<and>
           tmp_name ev = Inr stem \<and> save_fault ev = None \<and> replicate_result ev = Inr out)) \<and>
     ((status r = 400) =
        (req_files req ''file'' = None \<or>
         (\<exists>f. req_files req ''file'' = Some f \<and> filename f = []))) \<and>
     (status r \<noteq> 200 \<longrightarrow>
        (status r = 400 \<or> status r = 500) \<and>
        (\<exists>msg. body r = JsonBody (PDict [(''error'', PStr msg)])))"
  by (auto simp add: transcribe_def io_defs lib_defs respond_def jsonify_def
      split: option.splits sum.splits)

text \<open>The same for the synthesis route, by the shape of the body.\<close>

lemma text_missing_dict:
  "text_missing (PDict d) = Inr (map_of d ''text'' = None)"
  by (auto simp add: text_missing_def map_of_eq_None_iff)

lemma tts_not_dict:
  assumes "req_json req = Inr data" and "\<forall>d. data \<noteq> PDict d"
  shows "\<exists>r. text_to_speech ev req w = (Inr r, w) \<and> (status r = 400 \<or> status r = 500) \<and>
      ((status r = 400) = (text_missing data = Inr True)) \<and>
      (\<exists>msg. body r = JsonBody (PDict [(''error'', PStr msg)]))"
  using assms
  by (cases data)
     (auto simp add: text_to_speech_def text_missing_def io_defs respond_def jsonify_def
        split: sum.splits)

lemma tts_not_str:
  assumes "req_json req = Inr (PDict d)" and "map_of d ''text'' = Some x"
    and "\<forall>t. x \<noteq> PStr t"
  shows "\<exists>r. text_to_speech ev req w = (Inr r, w) \<and> status r = 500 \<and>
      (\<exists>msg. body r = JsonBody (PDict [(''error'', PStr msg)]))"
  using assms text_present [OF assms(2)]
  by (cases x)
     (auto simp add: text_to_speech_def io_defs respond_def jsonify_def)

lemma tts_classified:
  "\<exists>r w'. text_to_speech ev req w = (Inr r, w') \<and>
     ((status r = 200) =
        (\<exists>d t v stem bytes. req_json req = Inr (PDict d) \<and>
           map_of d ''text'' = Some (PStr t) \<and> strip t \<noteq> [] \<and>
           resolve_voice (catalog w) (dict_get d ''language'' (PStr ''English'')) = Inr v \<and>
           tmp_name ev = Inr stem \<and> tts_result ev = Inr bytes)) \<and>
     ((status r = 400) =
        (\<exists>data. req_json req = Inr data \<and>
           (text_missing data = Inr True \<or>
            (\<exists>d t. data = PDict d \<and> map_of d ''text'' = Some (PStr t) \<and> strip t = [])))) \<and>
     (status r \<noteq> 200 \<longrightarrow>
        (status r = 400 \<or> status r = 500) \<and>
        (\<exists>msg. body r = JsonBody (PDict [(''error'', PStr msg)])))"
proof (cases "req_json req")
  case (Inl e)
  then show ?thesis
    by (simp add: text_to_speech_def io_defs respond_def jsonify_def)
next
  case (Inr data)
  show ?thesis
  proof (cases "\<exists>d. data = PDict d")
    case False
    with tts_not_dict [OF Inr, of ev w] Inr show ?thesis by auto
  next
    case True
    then obtain d where d: "data = PDict d" by blast
    show ?thesis
    proof (cases "map_of d ''text''")
      case None
      with Inr d show ?thesis
        by (simp add: text_to_speech_def text_missing_dict io_defs respond_def jsonify_def)
    next
      case (Some x)
      show ?thesis
      proof (cases "\<exists>t. x = PStr t")
        case False
        with tts_not_str [of req d x ev w] Inr d Some show ?thesis
          by (auto simp add: text_missing_dict)
      next
        case True
        then obtain t where t: "x = PStr t" by blast
        show ?thesis
        proof (cases "strip t = []")
          case True
          with Inr d Some t show ?thesis
            by (simp add: text_to_speech_def text_missing_dict io_defs respond_def jsonify_def)
        next
          case False
          with Inr d Some t show ?thesis
            by (auto simp add: text_to_speech_def text_missing_dict generate_tts_audio_def
                io_defs lib_defs respond_def jsonify_def split: sum.splits)
        qed
      qed
    qed
  qed
qed

subsection \<open>The catalog over a run of the process\<close>

lemma serve_catalog: "catalog (snd (serve c w)) = catalog w"
proof (cases c)
  case Health
  then show ?thesis by (simp add: health_check_def io_return_def)
next
  case (Transcribe ev req)
  with transcribe_returns [of ev req w] show ?thesis by auto
next
  case (Tts ev req)
  with tts_returns [of ev req w] show ?thesis by auto
qed

lemma serve_all_catalog: "catalog (serve_all cs w) = catalog w"
  by (induction cs arbitrary: w) (simp_all add: serve_catalog)

section \<open>Temporary files\<close>

text \<open>
  The transcription route removes the file it created: once the upload has been saved, the
  \<^verbatim>\<open>.webm\<close> file is gone when the handler answers, whether the backend returned
  or raised.
\<close>

lemma transcribe_upload_released:
  assumes "req_files req ''file'' = Some f" and "filename f \<noteq> []"
    and "tmp_name ev = Inr stem" and "save_fault ev = None"
  shows "storage (snd (transcribe ev req w)) (stem @ ''.webm'') = None"
proof (cases "replicate_result ev")
  case (Inl e)
  with transcribe_backend_fault [OF assms, of e w] show ?thesis by simp
next
  case (Inr out)
  with transcribe_success [OF assms, of out w] show ?thesis by simp
qed

text \<open>
  C1. Every temporary file of a request has to be gone when the request has ended. The
  synthesis route does not do that: no statement of \<^verbatim>\<open>text_to_speech\<close> or
  \<^verbatim>\<open>generate_tts_audio\<close> removes the \<^verbatim>\<open>.mp3\<close> file the generator created.
  This synthesis request is answered with 200, and afterwards its file is still in
  storage.
\<close>

theorem C1_tts_file_remains:
  "fst (text_to_speech example_env (json_request (PDict klingon_body)) startup) =
     Inr (respond (FileBody ''ID3'' ''audio/mpeg'') 200) \<and>
   storage (snd (text_to_speech example_env (json_request (PDict klingon_body)) startup))
     ''/tmp/tmpk3x9.mp3'' = Some ''ID3''"
  by (simp add: text_to_speech_def generate_tts_audio_def io_defs lib_defs example_defs
      text_missing_def dict_get_def strip_def isspace_def resolve_voice_def language_dict_def)

section \<open>Voice resolution\<close>

text \<open>
  C2. Every language string resolves, without raising, to a voice identifier of the
  catalog; Klingon resolves to \<^verbatim>\<open>en-US-JennyNeural\<close>, the voice of the first speaker of
  English. A request body is resolved by its \<^verbatim>\<open>language\<close> entry alone (English when
  it has none): whatever else the body holds, a speaker or not, that voice is the one
  handed to the speech engine.
\<close>

theorem C2_voice_resolution_total:
  "(\<exists>v. resolve_voice language_dict (PStr l) = Inr v \<and> v \<in> set (catalog_voices language_dict))
   \<and> resolve_voice language_dict (PStr ''Klingon'') = Inr ''en-US-JennyNeural''
   \<and> (req_json req = Inr (PDict d) \<and> map_of d ''text'' = Some (PStr t) \<and> strip t \<noteq> [] \<and>
       dict_get d ''language'' (PStr ''English'') = PStr l \<and> catalog w = language_dict \<longrightarrow>
      (\<exists>v rest. resolve_voice language_dict (PStr l) = Inr v \<and>
         v \<in> set (catalog_voices language_dict) \<and>
         backend_calls (snd (text_to_speech ev req w)) =
           backend_calls w @ EdgeCommunicate (PStr t) v # rest))"
proof (intro conjI impI)
  show total: "\<exists>v. resolve_voice language_dict (PStr l) = Inr v \<and>
      v \<in> set (catalog_voices language_dict)"
    by (rule resolve_voice_total [OF language_dict_ok]) simp
  show "resolve_voice language_dict (PStr ''Klingon'') = Inr ''en-US-JennyNeural''"
    by (simp add: resolve_voice_def language_dict_def)
  assume a: "req_json req = Inr (PDict d) \<and> map_of d ''text'' = Some (PStr t) \<and>
    strip t \<noteq> [] \<and> dict_get d ''language'' (PStr ''English'') = PStr l \<and>
    catalog w = language_dict"
  from total obtain v where v: "resolve_voice language_dict (PStr l) = Inr v"
    "v \<in> set (catalog_voices language_dict)" by blast
  from a v(1) have "\<exists>rest. backend_calls (snd (text_to_speech ev req w)) =
      backend_calls w @ EdgeCommunicate (PStr t) v # rest"
    by (intro tts_voice_passed [of req d t w v ev]) simp_all
  with v show "\<exists>v rest. resolve_voice language_dict (PStr l) = Inr v \<and>
      v \<in> set (catalog_voices language_dict) \<and>
      backend_calls (snd (text_to_speech ev req w)) =
        backend_calls w @ EdgeCommunicate (PStr t) v # rest" by blast
qed

text \<open>C2 at a request for Klingon that names a speaker the catalog does not have.\<close>

theorem C2_voice_resolution_total_witness:
  "dict_get klingon_body ''language'' (PStr ''English'') = PStr ''Klingon'' \<and>
   dict_get klingon_body ''speaker'' PNone = PStr ''Worf'' \<and>
   backend_calls (snd (text_to_speech example_env (json_request (PDict klingon_body)) startup)) =
     [EdgeCommunicate (PStr ''hello'') ''en-US-JennyNeural'', EdgeSave ''/tmp/tmpk3x9.mp3'']"
proof -
  have run: "backend_calls
      (snd (text_to_speech example_env (json_request (PDict klingon_body)) startup)) =
     [EdgeCommunicate (PStr ''hello'') ''en-US-JennyNeural'', EdgeSave ''/tmp/tmpk3x9.mp3'']"
    by (simp add: text_to_speech_def generate_tts_audio_def io_defs lib_defs example_defs
      text_missing_def dict_get_def strip_def isspace_def resolve_voice_def language_dict_def)
  have request: "req_json (json_request (PDict klingon_body)) = Inr (PDict klingon_body) \<and>
      map_of klingon_body ''text'' = Some (PStr ''hello'') \<and> strip ''hello'' \<noteq> [] \<and>
      dict_get klingon_body ''language'' (PStr ''English'') = PStr ''Klingon'' \<and>
      catalog startup = language_dict"
    by (simp add: example_defs strip_def isspace_def dict_get_def)
  from request C2_voice_resolution_total [where l = "''Klingon''"
      and req = "json_request (PDict klingon_body)" and d = klingon_body
      and t = "''hello''" and w = startup and ev = example_env]
  have "\<exists>v rest. resolve_voice language_dict (PStr ''Klingon'') = Inr v \<and>
      v \<in> set (catalog_voices language_dict) \<and>
      backend_calls (snd (text_to_speech example_env (json_request (PDict klingon_body)) startup)) =
        backend_calls startup @ EdgeCommunicate (PStr ''hello'') v # rest"
    by blast
  with run show ?thesis by (simp add: klingon_body_def dict_get_def)
qed

section \<open>Validation\<close>

text \<open>
  C3. A transcription request without a \<^verbatim>\<open>file\<close> field, or whose file has an empty
  name, and a synthesis request whose body has no \<^verbatim>\<open>text\<close>, or whose text is empty or
  only whitespace, are each answered with 400 and an error message; the world afterwards
  is the world before, so no backend call was made and no temporary file was created.
\<close>

theorem C3_validation_rejects_empties:
  "(req_files req ''file'' = None \<longrightarrow>
      transcribe ev req w =
        (Inr (respond (jsonify [(''error'', PStr ''No audio file provided'')]) 400), w))
   \<and> (req_files req ''file'' = Some f \<and> filename f = [] \<longrightarrow>
      transcribe ev req w =
        (Inr (respond (jsonify [(''error'', PStr ''No file selected'')]) 400), w))
   \<and> (req_json req = Inr (PDict d) \<and> ''text'' \<notin> fst ` set d \<longrightarrow>
      text_to_speech ev req w =
        (Inr (respond (jsonify [(''error'', PStr ''No text provided'')]) 400), w))
   \<and> (req_json req = Inr (PDict d) \<and> map_of d ''text'' = Some (PStr t) \<and>
       (\<forall>c \<in> set t. isspace c) \<longrightarrow>
      text_to_speech ev req w =
        (Inr (respond (jsonify [(''error'', PStr ''Empty text provided'')]) 400), w))"
proof (intro conjI impI)
  assume "req_files req ''file'' = None"
  then show "transcribe ev req w =
      (Inr (respond (jsonify [(''error'', PStr ''No audio file provided'')]) 400), w)"
    by (simp add: transcribe_def io_defs)
next
  assume "req_files req ''file'' = Some f \<and> filename f = []"
  then show "transcribe ev req w =
      (Inr (respond (jsonify [(''error'', PStr ''No file selected'')]) 400), w)"
    by (simp add: transcribe_def io_defs)
next
  assume "req_json req = Inr (PDict d) \<and> ''text'' \<notin> fst ` set d"
  then show "text_to_speech ev req w =
      (Inr (respond (jsonify [(''error'', PStr ''No text provided'')]) 400), w)"
    by (simp add: text_to_speech_def text_missing_def io_defs)
next
  assume a: "req_json req = Inr (PDict d) \<and> map_of d ''text'' = Some (PStr t) \<and>
    (\<forall>c \<in> set t. isspace c)"
  then have "strip t = []" by (simp add: strip_blank)
  with a text_present [of d "PStr t"]
  show "text_to_speech ev req w =
      (Inr (respond (jsonify [(''error'', PStr ''Empty text provided'')]) 400), w)"
    by (simp add: text_to_speech_def io_defs)
qed

text \<open>
  C3 at a request without a file, at an upload without a name, at a body without text and
  at a text of a space, a tab and a newline.
\<close>

theorem C3_validation_rejects_empties_witness:
  "transcribe example_env (json_request PNone) startup =
     (Inr (respond (jsonify [(''error'', PStr ''No audio file provided'')]) 400), startup) \<and>
   transcribe example_env empty_upload_request startup =
     (Inr (respond (jsonify [(''error'', PStr ''No file selected'')]) 400), startup) \<and>
   text_to_speech example_env (json_request (PDict [(''language'', PStr ''Hindi'')])) startup =
     (Inr (respond (jsonify [(''error'', PStr ''No text provided'')]) 400), startup) \<and>
   text_to_speech example_env
       (json_request (PDict [(''text'', PStr [CHR '' '', CHR 0x09, CHR 0x0A])])) startup =
     (Inr (respond (jsonify [(''error'', PStr ''Empty text provided'')]) 400), startup)"
  using
    C3_validation_rejects_empties [where req = "json_request PNone" and ev = example_env
      and w = startup]
    C3_validation_rejects_empties [where req = empty_upload_request and ev = example_env
      and w = startup and f = "\<lparr>filename = [], stream = []\<rparr>"]
    C3_validation_rejects_empties [where ev = example_env and w = startup
      and req = "json_request (PDict [(''language'', PStr ''Hindi'')])"
      and d = "[(''language'', PStr ''Hindi'')]"]
    C3_validation_rejects_empties [where ev = example_env and w = startup
      and req = "json_request (PDict [(''text'', PStr [CHR '' '', CHR 0x09, CHR 0x0A])])"
      and d = "[(''text'', PStr [CHR '' '', CHR 0x09, CHR 0x0A])]"
      and t = "[CHR '' '', CHR 0x09, CHR 0x0A]"]
  by (simp add: example_defs isspace_def)

section \<open>Backend faults\<close>

text \<open>
  C4. When \<^verbatim>\<open>replicate.run\<close> raises, the handler answers 500 with an error that is the
  backend's message after the prefix \<^verbatim>\<open>Transcription failed: \<close>, and in the world it
  returns the temporary \<^verbatim>\<open>.webm\<close> file has already been removed.
\<close>

theorem C4_backend_fault_surfaced:
  assumes "req_files req ''file'' = Some f" and "filename f \<noteq> []"
    and "tmp_name ev = Inr stem" and "save_fault ev = None"
    and "replicate_result ev = Inl e"
  shows "fst (transcribe ev req w) =
      Inr (respond (jsonify [(''error'', PStr (''Transcription failed: '' @ str_exn e))]) 500)
    \<and> storage (snd (transcribe ev req w)) (stem @ ''.webm'') = None"
  by (simp add: transcribe_backend_fault [OF assms])

text \<open>C4 at a backend that answers that the quota is exceeded.\<close>

theorem C4_backend_fault_surfaced_witness:
  "replicate_result failing_env = Inl (PyExn ''ReplicateError'' ''quota exceeded'') \<and>
   fst (transcribe failing_env audio_request startup) =
     Inr (respond (jsonify [(''error'', PStr ''Transcription failed: quota exceeded'')]) 500) \<and>
   storage (snd (transcribe failing_env audio_request startup)) ''/tmp/tmpk3x9.webm'' = None"
  using C4_backend_fault_surfaced [where req = audio_request and f = clip
      and ev = failing_env and stem = "''/tmp/tmpk3x9''"
      and e = "PyExn ''ReplicateError'' ''quota exceeded''" and w = startup]
  by (simp add: example_defs)

section \<open>The success body of a transcription\<close>

text \<open>
  C5. Whatever value the backend returns, the handler answers 200 with a body of two
  fields. For a dictionary with a \<^verbatim>\<open>transcription\<close> entry the transcription is that
  entry's value and the language is the dictionary's \<^verbatim>\<open>language\<close> entry
  (\<^verbatim>\<open>None\<close> without one); for a string it is the string itself; for any other value it
  is \<^verbatim>\<open>str\<close> of the value.
\<close>

theorem C5_every_output_shape_mapped:
  assumes "req_files req ''file'' = Some f" and "filename f \<noteq> []"
    and "tmp_name ev = Inr stem" and "save_fault ev = None"
    and "replicate_result ev = Inr out"
  shows "\<exists>T L. fst (transcribe ev req w) =
        Inr (respond (jsonify [(''transcription'', T), (''language'', L)]) 200)
    \<and> (\<forall>d x. out = PDict d \<and> map_of d ''transcription'' = Some x \<longrightarrow>
          T = x \<and> L = (case map_of d ''language'' of None \<Rightarrow> PNone | Some y \<Rightarrow> y))
    \<and> (\<forall>s. out = PStr s \<longrightarrow> T = PStr s)
    \<and> ((\<forall>d x. out = PDict d \<longrightarrow> map_of d ''transcription'' \<noteq> Some x) \<and>
        (\<forall>s. out \<noteq> PStr s) \<longrightarrow> T = PStr (py_str out))"
proof (intro exI conjI)
  show "fst (transcribe ev req w) =
      Inr (respond (jsonify [(''transcription'', transcription_field out),
                             (''language'', language_field out)]) 200)"
    by (simp add: transcribe_success [OF assms])
  show "\<forall>d x. out = PDict d \<and> map_of d ''transcription'' = Some x \<longrightarrow>
      transcription_field out = x \<and>
      language_field out = (case map_of d ''language'' of None \<Rightarrow> PNone | Some y \<Rightarrow> y)"
    by (simp add: transcription_field_def language_field_def dict_get_def)
  show "\<forall>s. out = PStr s \<longrightarrow> transcription_field out = PStr s"
    by (simp add: transcription_field_def)
  show "(\<forall>d x. out = PDict d \<longrightarrow> map_of d ''transcription'' \<noteq> Some x) \<and>
      (\<forall>s. out \<noteq> PStr s) \<longrightarrow> transcription_field out = PStr (py_str out)"
    by (cases out) (auto simp add: transcription_field_def dict_get_def split: option.splits)
qed

text \<open>C5 at the backend that returns the transcription hello world in the language en.\<close>

theorem C5_every_output_shape_mapped_witness:
  "replicate_result example_env =
     Inr (PDict [(''transcription'', PStr ''hello world''), (''language'', PStr ''en'')]) \<and>
   fst (transcribe example_env audio_request startup) =
     Inr (respond (jsonify [(''transcription'', PStr ''hello world''),
                            (''language'', PStr ''en'')]) 200)"
proof -
  from C5_every_output_shape_mapped [where req = audio_request and f = clip
      and ev = example_env and stem = "''/tmp/tmpk3x9''" and w = startup
      and out = "PDict [(''transcription'', PStr ''hello world''), (''language'', PStr ''en'')]"]
  obtain T L where body: "fst (transcribe example_env audio_request startup) =
        Inr (respond (jsonify [(''transcription'', T), (''language'', L)]) 200)"
    and dict: "\<forall>d x. PDict [(''transcription'', PStr ''hello world''), (''language'', PStr ''en'')]
          = PDict d \<and> map_of d ''transcription'' = Some x \<longrightarrow>
          T = x \<and> L = (case map_of d ''language'' of None \<Rightarrow> PNone | Some y \<Rightarrow> y)"
    by (auto simp add: example_defs)
  from dict have "T = PStr ''hello world''" and "L = PStr ''en''" by simp_all
  with body show ?thesis by (simp add: example_env_def)
qed

text \<open>
  C10. When the backend returns a dictionary without a \<^verbatim>\<open>transcription\<close> key, the
  transcription of the 200 answer is \<^verbatim>\<open>str\<close> of the whole dictionary and the language
  is the dictionary's \<^verbatim>\<open>language\<close> entry, \<^verbatim>\<open>None\<close> without one; when the backend
  returns anything that is not a dictionary, the language is \<^verbatim>\<open>None\<close>.
\<close>

theorem C10_language_field:
  assumes "req_files req ''file'' = Some f" and "filename f \<noteq> []"
    and "tmp_name ev = Inr stem" and "save_fault ev = None"
    and "replicate_result ev = Inr out"
  shows "(\<forall>d. out = PDict d \<and> ''transcription'' \<notin> fst ` set d \<longrightarrow>
        fst (transcribe ev req w) =
          Inr (respond (jsonify
            [(''transcription'', PStr (py_str (PDict d))),
             (''language'', case map_of d ''language'' of None \<Rightarrow> PNone | Some y \<Rightarrow> y)]) 200))
    \<and> ((\<forall>d. out \<noteq> PDict d) \<longrightarrow>
        (\<exists>T. fst (transcribe ev req w) =
          Inr (respond (jsonify [(''transcription'', T), (''language'', PNone)]) 200)))"
proof (intro conjI allI impI)
  fix d
  assume a: "out = PDict d \<and> ''transcription'' \<notin> fst ` set d"
  then have "map_of d ''transcription'' = None"
    by (simp add: map_of_eq_None_iff)
  with a show "fst (transcribe ev req w) =
      Inr (respond (jsonify
        [(''transcription'', PStr (py_str (PDict d))),
         (''language'', case map_of d ''language'' of None \<Rightarrow> PNone | Some y \<Rightarrow> y)]) 200)"
    by (simp add: transcribe_success [OF assms] transcription_field_def language_field_def
        dict_get_def)
next
  assume "\<forall>d. out \<noteq> PDict d"
  then have "language_field out = PNone"
    by (cases out) (simp_all add: language_field_def)
  then show "\<exists>T. fst (transcribe ev req w) =
      Inr (respond (jsonify [(''transcription'', T), (''language'', PNone)]) 200)"
    by (auto simp add: transcribe_success [OF assms])
qed


text \<open>
  C10 at a backend that returns a dictionary with the keys \<^verbatim>\<open>text\<close> and
  \<^verbatim>\<open>language\<close>, and at one that returns a list.
\<close>

theorem C10_language_field_witness:
  "fst (transcribe
         (example_env\<lparr>replicate_result :=
            Inr (PDict [(''text'', PStr ''hi''), (''language'', PStr ''en'')])\<rparr>)
         audio_request startup) =
     Inr (respond (jsonify
       [(''transcription'', PStr ''{'text': 'hi', 'language': 'en'}''),
        (''language'', PStr ''en'')]) 200) \<and>
   (\<exists>T. fst (transcribe (example_env\<lparr>replicate_result := Inr (PList [PStr ''hi''])\<rparr>)
         audio_request startup) =
     Inr (respond (jsonify [(''transcription'', T), (''language'', PNone)]) 200))"
  using
    C10_language_field [where req = audio_request and f = clip and stem = "''/tmp/tmpk3x9''"
      and w = startup
      and out = "PDict [(''text'', PStr ''hi''), (''language'', PStr ''en'')]"
      and ev = "example_env\<lparr>replicate_result :=
            Inr (PDict [(''text'', PStr ''hi''), (''language'', PStr ''en'')])\<rparr>"]
    C10_language_field [where req = audio_request and f = clip and stem = "''/tmp/tmpk3x9''"
      and w = startup and out = "PList [PStr ''hi'']"
      and ev = "example_env\<lparr>replicate_result := Inr (PList [PStr ''hi''])\<rparr>"]
  by (simp add: example_defs str_defs Let_def)

section \<open>The shape of every answer\<close>

text \<open>
  C6. Both handlers always return a response, never an exception, whatever the request
  and whatever the surroundings do. The answer is a 200 only when nothing failed: no
  validation failure, no fault of the temporary file, of the upload, of the backend or of
  the speech engine, and no exception inside the handler. A validation failure, and
  nothing else, is answered with 400. Every answer that is not a 200 has status 400 or
  500 and a JSON body whose only field is \<^verbatim>\<open>error\<close>, a string.
\<close>

theorem C6_uniform_error_shape:
  "(\<exists>r w'. transcribe ev req w = (Inr r, w') \<and>
      ((status r = 200) =
         (\<exists>f stem out. req_files req ''file'' = Some f \<and> filename f \<noteq> [] \<and>
            tmp_name ev = Inr stem \<and> save_fault ev = None \<and>
            replicate_result ev = Inr out)) \<and>
      ((status r = 400) =
         (req_files req ''file'' = None \<or>
          (\<exists>f. req_files req ''file'' = Some f \<and> filename f = []))) \<and>
      (status r \<noteq> 200 \<longrightarrow>
         (status r = 400 \<or> status r = 500) \<and>
         (\<exists>msg. body r = JsonBody (PDict [(''error'', PStr msg)]))))
   \<and> (\<exists>r w'. text_to_speech ev req w = (Inr r, w') \<and>
      ((status r = 200) =
         (\<exists>d t v stem bytes. req_json req = Inr (PDict d) \<and>
            map_of d ''text'' = Some (PStr t) \<and> strip t \<noteq> [] \<and>
            resolve_voice (catalog w) (dict_get d ''language'' (PStr ''English'')) = Inr v \<and>
            tmp_name ev = Inr stem \<and> tts_result ev = Inr bytes)) \<and>
      ((status r = 400) =
         (\<exists>data. req_json req = Inr data \<and>
            (text_missing data = Inr True \<or>
             (\<exists>d t. data = PDict d \<and> map_of d ''text'' = Some (PStr t) \<and>
                strip t = [])))) \<and>
      (status r \<noteq> 200 \<longrightarrow>
         (status r = 400 \<or> status r = 500) \<and>
         (\<exists>msg. body r = JsonBody (PDict [(''error'', PStr msg)]))))"
  using transcribe_classified [of ev req w] tts_classified [of ev req w]
  by (rule conjI)

text \<open>
  C6 at a backend that raises, at a speech engine that raises, at an upload that cannot
  be saved and at a request without a file.
\<close>

theorem C6_uniform_error_shape_witness:
  "fst (transcribe failing_env audio_request startup) =
     Inr (respond (jsonify [(''error'', PStr ''Transcription failed: quota exceeded'')]) 500) \<and>
   fst (text_to_speech (example_env\<lparr>tts_result := Inl (PyExn ''NoAudioReceived'' ''no audio'')\<rparr>)
          (json_request (PDict klingon_body)) startup) =
     Inr (respond (jsonify [(''error'', PStr ''TTS generation failed: no audio'')]) 500) \<and>
   fst (transcribe (example_env\<lparr>save_fault := Some (PyExn ''OSError'' ''disk full'')\<rparr>)
          audio_request startup) =
     Inr (respond (jsonify [(''error'', PStr ''Server error: disk full'')]) 500) \<and>
   fst (transcribe example_env (json_request PNone) startup) =
     Inr (respond (jsonify [(''error'', PStr ''No audio file provided'')]) 400)"
  using
    C6_uniform_error_shape [where ev = failing_env and req = audio_request and w = startup]
    C6_uniform_error_shape [where req = "json_request (PDict klingon_body)" and w = startup
      and ev = "example_env\<lparr>tts_result := Inl (PyExn ''NoAudioReceived'' ''no audio'')\<rparr>"]
    C6_uniform_error_shape [where req = audio_request and w = startup
      and ev = "example_env\<lparr>save_fault := Some (PyExn ''OSError'' ''disk full'')\<rparr>"]
    C6_uniform_error_shape [where ev = example_env and req = "json_request PNone"
      and w = startup]
  by (simp add: transcribe_def text_to_speech_def generate_tts_audio_def io_defs lib_defs
      example_defs text_missing_def dict_get_def strip_def isspace_def resolve_voice_def
      language_dict_def)

section \<open>The decoding configuration\<close>

text \<open>
  C7, as the claim states it, fails: the model that the handler names to the backend is
  \<^verbatim>\<open>large-v3\<close>, not \<^verbatim>\<open>large\<close>.
\<close>

theorem C7_model_is_large_v3:
  "backend_calls (snd (transcribe example_env audio_request startup)) =
     [ReplicateRun whisper_version ''RIFF'' decoding_input] \<and>
   map_of decoding_input ''model'' = Some (PStr ''large-v3'') \<and>
   map_of decoding_input ''model'' \<noteq> Some (PStr ''large'')"
  by (simp add: transcribe_def io_defs lib_defs example_defs decoding_input_def)

text \<open>
  C7, amended. A request makes no call to the transcription backend or exactly one, and
  that call names the same model version and carries the same entries after the audio,
  whatever the request and the surroundings are: model \<^verbatim>\<open>large-v3\<close>, language
  \<^verbatim>\<open>auto\<close>, no translation, temperature 0, \<^verbatim>\<open>suppress_tokens\<close> \<^verbatim>\<open>-1\<close>, the
  thresholds -1.0 and 0.6, and conditioning on the previous text.
\<close>

theorem C7_fixed_decoding_configuration:
  "backend_calls (snd (transcribe ev req w)) = backend_calls w \<or>
   (\<exists>audio. backend_calls (snd (transcribe ev req w)) =
      backend_calls w @
        [ReplicateRun
           ''openai/whisper:4d50797290df275329f202e48c76360b3f22b08d28c196cbc54600319435f8d2''
           audio
           [(''model'', PStr ''large-v3''),
            (''language'', PStr ''auto''),
            (''translate'', PBool False),
            (''temperature'', PInt 0),
            (''suppress_tokens'', PStr ''-1''),
            (''logprob_threshold'', PFloat ''-1.0''),
            (''no_speech_threshold'', PFloat ''0.6''),
            (''condition_on_previous_text'', PBool True)]])"
  using transcribe_calls [of ev req w]
  by (simp add: whisper_version_def decoding_input_def)

section \<open>The catalog\<close>

text \<open>
  C8. Every language of \<^verbatim>\<open>language_dict\<close> has at least one speaker, English among
  them, so the first speaker is defined; the process starts with this catalog, no route
  and no call of the TTS generator changes it, and so it is the catalog after any
  sequence of requests.
\<close>

theorem C8_catalog_invariant_and_immutable:
  "(\<forall>(l, speakers) \<in> set language_dict. speakers \<noteq> [])
   \<and> (\<exists>voice rest. map_of language_dict ''English'' = Some ((''Jenny'', voice) # rest))
   \<and> catalog startup = language_dict
   \<and> catalog (snd (serve c w)) = catalog w
   \<and> catalog (snd (generate_tts_audio ev x language w)) = catalog w
   \<and> catalog (serve_all cs startup) = language_dict"
proof (intro conjI)
  show "\<forall>(l, speakers) \<in> set language_dict. speakers \<noteq> []"
    using language_dict_ok by (simp add: catalog_ok_def)
  show "\<exists>voice rest. map_of language_dict ''English'' = Some ((''Jenny'', voice) # rest)"
    by (simp add: language_dict_def)
  show "catalog startup = language_dict"
    by (simp add: startup_def)
  show "catalog (snd (serve c w)) = catalog w"
    by (rule serve_catalog)
  show "catalog (snd (generate_tts_audio ev x language w)) = catalog w"
    by (rule generate_tts_audio_catalog)
  show "catalog (serve_all cs startup) = language_dict"
    by (simp add: serve_all_catalog startup_def)
qed

text \<open>C8 at the entry for Urdu and at a process that served three requests.\<close>

theorem C8_catalog_invariant_and_immutable_witness:
  "(''Urdu'', [(''Gul'', ''ur-IN-GulNeural''), (''Salman'', ''ur-IN-SalmanNeural'')])
     \<in> set language_dict \<and>
   [(''Gul'', ''ur-IN-GulNeural''), (''Salman'', ''ur-IN-SalmanNeural'')] \<noteq> [] \<and>
   catalog (serve_all
     [Tts example_env (json_request (PDict klingon_body)),
      Transcribe failing_env audio_request,
      Health] startup) = language_dict"
  using C8_catalog_invariant_and_immutable [where cs =
    "[Tts example_env (json_request (PDict klingon_body)),
      Transcribe failing_env audio_request, Health]"]
  by (simp add: language_dict_def)

section \<open>A text that is not a string\<close>

text \<open>
  C9. When the body of a synthesis request has a \<^verbatim>\<open>text\<close> that is not a string,
  \<^verbatim>\<open>text.strip()\<close> raises an \<^verbatim>\<open>AttributeError\<close>; the answer is not a 400 but a
  500 whose error is \<^verbatim>\<open>TTS generation failed: \<close> followed by that exception's message,
  and the world is unchanged, so no backend call was made.
\<close>

theorem C9_non_string_text_is_500:
  assumes "req_json req = Inr (PDict d)" and "map_of d ''text'' = Some x"
    and "\<forall>s. x \<noteq> PStr s"
  shows "py_strip x =
      Inl (PyExn ''AttributeError''
        (repr_str (type_name x) @ '' object has no attribute '' @ repr_str ''strip''))
    \<and> text_to_speech ev req w =
      (Inr (respond (jsonify [(''error'', PStr (''TTS generation failed: '' @
          repr_str (type_name x) @ '' object has no attribute '' @ repr_str ''strip''))])
        500), w)"
proof -
  from assms(3) have s: "py_strip x = Inl (no_attribute x ''strip'')"
    by (cases x) simp_all
  with assms(1,2) text_present [OF assms(2)] show ?thesis
    by (simp add: text_to_speech_def io_defs no_attribute_def)
qed

text \<open>C9 at a text that is the number 5 and at a text that is null.\<close>

theorem C9_non_string_text_is_500_witness:
  "text_to_speech example_env (json_request (PDict [(''text'', PInt 5)])) startup =
     (Inr (respond (jsonify [(''error'',
        PStr (''TTS generation failed: 'int' object has no attribute 'strip'' @ [CHR 0x27]))])
        500), startup) \<and>
   text_to_speech example_env (json_request (PDict [(''text'', PNone)])) startup =
     (Inr (respond (jsonify [(''error'',
        PStr (''TTS generation failed: 'NoneType' object has no attribute 'strip'' @ [CHR 0x27]))])
        500), startup)"
  using
    C9_non_string_text_is_500 [where req = "json_request (PDict [(''text'', PInt 5)])"
      and d = "[(''text'', PInt 5)]" and x = "PInt 5" and ev = example_env and w = startup]
    C9_non_string_text_is_500 [where req = "json_request (PDict [(''text'', PNone)])"
      and d = "[(''text'', PNone)]" and x = PNone and ev = example_env and w = startup]
  by (simp add: example_defs str_defs Let_def)

end
